theory Spec2Isabelle
  imports Main "HOL-Library.Char_ord" "HOL-Library.List_Lexorder"
begin

section \<open>Python text, as the completer handles it\<close>

text \<open>
  A Python \<open>str\<close> is a sequence of Unicode code points, so a text is a list of code
  points (natural numbers), and \<open>len\<close> is \<open>length\<close>. File paths are plain strings.
\<close>

type_synonym codepoint = nat
type_synonym unicode = "codepoint list"
type_synonym path = string

definition LF :: codepoint where
  "LF = 10"

definition CR :: codepoint where
  "CR = 13"

definition py_str :: "string \<Rightarrow> unicode" where
  \<comment> \<open>an ASCII literal of the source as a text\<close>
  "py_str s = map of_char s"

definition py_slice :: "'a list \<Rightarrow> nat \<Rightarrow> nat \<Rightarrow> 'a list" where
  \<comment> \<open>\<open>xs[lo:hi]\<close> for non-negative bounds: clamped to the list, empty when \<open>hi \<le> lo\<close>\<close>
  "py_slice xs lo hi = take (hi - lo) (drop lo xs)"

definition py_prefix :: "'a list \<Rightarrow> int \<Rightarrow> 'a list" where
  \<comment> \<open>\<open>xs[:k]\<close>: a negative \<open>k\<close> counts from the end\<close>
  "py_prefix xs k =
     (if 0 \<le> k then take (nat k) xs else take (length xs - nat (- k)) xs)"

definition utf8_width :: "codepoint \<Rightarrow> nat" where
  \<comment> \<open>bytes of one code point in UTF-8\<close>
  "utf8_width c = (if c < 128 then 1 else if c < 2048 then 2 else if c < 65536 then 3 else 4)"

definition CodepointOffsetToByteOffset :: "unicode \<Rightarrow> int \<Rightarrow> nat" where
  \<comment> \<open>Modelled from the spec: \<open>ycmd.utils.CodepointOffsetToByteOffset\<close> is not among the
      sources. The spec has the column converted from a count of text units (code points)
      to a count of storage units (encoded bytes) for the portion of the line up to that
      column, recomputed per call; both offsets are 1-based:
      \<open>len( ToBytes( line_value[ : codepoint_offset - 1 ] ) ) + 1\<close>.\<close>
  "CodepointOffsetToByteOffset unicode_line_value codepoint_offset =
     sum_list (map utf8_width (py_prefix unicode_line_value (codepoint_offset - 1))) + 1"

section \<open>Errors\<close>

datatype error =
    CantJumpToDefinition
  | CantJumpToImplementation
  | CantJumpToImplementationBecause error
  | SymbolNotFound
  | MustSpecifySearch
  | CannotFindInterpreter path
  | InvalidFileOffsetInDiff
  | TypeError
  | EngineError

text \<open>
  Every constructor but the last two is a \<open>RuntimeError\<close> of the source, named by its
  message; \<open>CantJumpToImplementationBecause e\<close> is the one that quotes the error it
  wraps. \<open>TypeError\<close> is Python's own, and \<open>EngineError\<close> stands for any exception that
  Jedi raises.
\<close>

section \<open>Offsets to positions\<close>

record Location =
  line_number :: nat
  column_number :: nat
  filename :: path


definition position_at :: "path \<Rightarrow> unicode \<Rightarrow> nat list \<Rightarrow> nat \<Rightarrow> nat \<Rightarrow> nat \<Rightarrow> Location" where
  \<comment> \<open>the body of \<open>if newline >= offset\<close>\<close>
  "position_at file text newlines index newline offset =
     (let start_of_line = (if index > 0 then newlines ! (index - 1) + 1 else 0);
          column = int offset - int start_of_line;
          line_value = py_slice text start_of_line newline
      in \<lparr> line_number = index + 1,
           column_number = CodepointOffsetToByteOffset line_value (column + 1),
           filename = file \<rparr>)"

definition scan_offsets ::
  "nat \<times> nat \<Rightarrow> path \<Rightarrow> unicode \<Rightarrow> nat list \<Rightarrow> nat \<Rightarrow> nat \<Rightarrow> Location list \<Rightarrow> Location list" where
  \<comment> \<open>the inner loop: \<open>for offset in start_end[ len( loc ): ]\<close>, the slice taken once\<close>
  "scan_offsets start_end file text newlines index newline loc =
     foldl (\<lambda>acc offset.
              if newline \<ge> offset
              then acc @ [position_at file text newlines index newline offset]
              else acc)
           loc (drop (length loc) [fst start_end, snd start_end])"

fun OffsetToPosition_loop ::
  "nat \<times> nat \<Rightarrow> path \<Rightarrow> unicode \<Rightarrow> nat list \<Rightarrow> (nat \<times> nat) list \<Rightarrow> Location list \<Rightarrow> Location list" where
  "OffsetToPosition_loop start_end file text newlines [] loc = loc"
| "OffsetToPosition_loop start_end file text newlines ((index, newline) # rest) loc =
     (let loc' = scan_offsets start_end file text newlines index newline loc
      in if length loc' = 2 then loc'
         else OffsetToPosition_loop start_end file text newlines rest loc')"

definition OffsetToPosition ::
  "nat \<times> nat \<Rightarrow> path \<Rightarrow> unicode \<Rightarrow> nat list \<Rightarrow> error + Location list" where
  \<comment> \<open>\<open>return loc\<close> ends the function on every path: the \<open>raise RuntimeError( "Invalid
      file offset in diff" )\<close> written after it is never reached, so no branch of the
      model yields \<open>Inl InvalidFileOffsetInDiff\<close>.\<close>
  "OffsetToPosition start_end file text newlines =
     Inr (OffsetToPosition_loop start_end file text newlines (enumerate 0 newlines) [])"

section \<open>The patch builder\<close>

text \<open>
  An opcode of \<open>difflib.SequenceMatcher.get_opcodes\<close> is a tag and four offsets,
  \<open>(tag, i1, i2, j1, j2)\<close>: the range \<open>a[i1:i2]\<close> of the old text against the range
  \<open>b[j1:j2]\<close> of the new one.
\<close>

datatype tag = Replace | Delete | Insert | Equal

type_synonym opcode = "tag \<times> nat \<times> nat \<times> nat \<times> nat"

record Range =
  range_start :: Location
  range_end :: Location

record FixItChunk =
  replacement_text :: unicode
  chunk_range :: Range

datatype fixit_kind = REFACTOR

record FixIt =
  fixit_location :: Location
  fixit_chunks :: "FixItChunk list"
  fixit_text :: unicode
  fixit_kind :: fixit_kind

definition Range_of :: "Location list \<Rightarrow> error + Range" where
  \<comment> \<open>\<open>responses.Range( *loc )\<close>: the constructor takes a start and an end, so a tuple of
      any other length is Python's \<open>TypeError\<close>\<close>
  "Range_of loc =
     (case loc of
        [s, e] \<Rightarrow> Inr \<lparr> range_start = s, range_end = e \<rparr>
      | _ \<Rightarrow> Inl TypeError)"

fun opcodes_to_chunks ::
  "path \<Rightarrow> unicode \<Rightarrow> unicode \<Rightarrow> nat list \<Rightarrow> opcode list \<Rightarrow> FixItChunk list
   \<Rightarrow> error + FixItChunk list" where
  "opcodes_to_chunks file old_text new_text newlines [] chunks = Inr chunks"
| "opcodes_to_chunks file old_text new_text newlines
     ((operation, old_start, old_end, new_start, new_end) # rest) chunks =
     (if operation = Equal
      then opcodes_to_chunks file old_text new_text newlines rest chunks
      else
        (case OffsetToPosition (old_start, old_end) file old_text newlines of
           Inl e \<Rightarrow> Inl e
         | Inr loc \<Rightarrow>
             (case Range_of loc of
                Inl e \<Rightarrow> Inl e
              | Inr r \<Rightarrow>
                  opcodes_to_chunks file old_text new_text newlines rest
                    (chunks @ [\<lparr> replacement_text = py_slice new_text new_start new_end,
                                 chunk_range = r \<rparr>]))))"

section \<open>Python string methods used by the walk\<close>

definition is_linebreak :: "codepoint \<Rightarrow> bool" where
  \<comment> \<open>the line boundaries of \<open>str.splitlines\<close>\<close>
  "is_linebreak c =
     (c = 10 \<or> c = 11 \<or> c = 12 \<or> c = 13 \<or> c = 28 \<or> c = 29 \<or> c = 30
      \<or> c = 133 \<or> c = 8232 \<or> c = 8233)"

fun splitlines_from :: "unicode \<Rightarrow> unicode \<Rightarrow> unicode list" where
  \<comment> \<open>the second argument is the line read so far; \<open>\r\n\<close> is one boundary, and the
      text after the last boundary is a line only when it is not empty\<close>
  "splitlines_from line [] = (if line = [] then [] else [line])"
| "splitlines_from line (c # cs) =
     (if c = CR \<and> cs \<noteq> [] \<and> hd cs = LF then line # splitlines_from [] (tl cs)
      else if is_linebreak c then line # splitlines_from [] cs
      else splitlines_from (line @ [c]) cs)"

definition splitlines :: "unicode \<Rightarrow> unicode list" where
  "splitlines s = splitlines_from [] s"

definition isspace :: "codepoint \<Rightarrow> bool" where
  \<comment> \<open>the code points that \<open>str.strip\<close> removes\<close>
  "isspace c =
     ((9 \<le> c \<and> c \<le> 13) \<or> (28 \<le> c \<and> c \<le> 32) \<or> c = 133 \<or> c = 160 \<or> c = 5760
      \<or> (8192 \<le> c \<and> c \<le> 8202) \<or> c = 8232 \<or> c = 8233 \<or> c = 8239 \<or> c = 8287
      \<or> c = 12288)"


definition strip :: "unicode \<Rightarrow> unicode" where
  \<comment> \<open>\<open>str.strip\<close>: whitespace removed at both ends\<close>
  "strip s = rev (dropWhile isspace (rev (dropWhile isspace s)))"

definition startswith :: "unicode \<Rightarrow> unicode list \<Rightarrow> bool" where
  \<comment> \<open>\<open>s.startswith( ( p1, p2, ... ) )\<close>\<close>
  "startswith s prefixes = list_ex (\<lambda>p. take (length p) s = p) prefixes"

section \<open>Go to implementation: the transitive walk\<close>

text \<open>
  A location is the dictionary that \<open>responses.BuildGoToResponse\<close> builds: a file path,
  a line, a column and, when there is one, a description. Jedi reports no line for some
  names, so the line is optional. A request carries the same three position fields.
\<close>

record Position =
  filepath :: path
  line_num :: "int option"
  column_num :: int

record GoToResponse = Position +
  description :: "string option"

type_synonym location_tuple = "path \<times> int option \<times> int"

record FileData =
  contents :: "unicode option"
  filetypes :: "string list option"

type_synonym client_data = string

record Request = Position +
  command_arguments :: "string list"
  file_data :: "path \<rightharpoonup> FileData"
  extra_conf_data :: "client_data option"

datatype definition_result = One GoToResponse | Many "GoToResponse list"

datatype read_result = FileContents unicode | IOError | DecodeError

text \<open>
  What the walk calls and does not define: the single-hop query \<open>_GoToDefinition\<close>, which
  runs the engine on some state \<open>'st\<close> of its own (the caches of the completer, Jedi's
  state); \<open>ReadFile\<close>, which raises \<open>IOError\<close> or, on a file that is not UTF-8, another
  error; and the validation of \<open>RequestWrap\<close>, which may refuse a request.
\<close>

record 'st World =
  GoToDefinition :: "Request \<Rightarrow> 'st \<Rightarrow> (error + definition_result) \<times> 'st"
  ReadFile :: "path \<Rightarrow> read_result"
  RequestWrap_valid :: "Request \<Rightarrow> bool"

definition max_iterations :: nat where
  "max_iterations = 10"

definition tuple_of :: "GoToResponse \<Rightarrow> location_tuple" where
  "tuple_of current_location =
     (filepath current_location, line_num current_location, column_num current_location)"

definition location_of :: "location_tuple \<Rightarrow> GoToResponse" where
  \<comment> \<open>the dictionary rebuilt from a visited triple: it has no description\<close>
  "location_of t =
     (case t of (last_filepath, last_line, last_column) \<Rightarrow>
        \<lparr> filepath = last_filepath, line_num = last_line, column_num = last_column,
          description = None \<rparr>)"

definition first_definition :: "definition_result \<Rightarrow> error + GoToResponse" where
  \<comment> \<open>a list of results gives its first; an empty list raises\<close>
  "first_definition definition_result =
     (case definition_result of
        Many [] \<Rightarrow> Inl CantJumpToImplementation
      | Many (d # _) \<Rightarrow> Inr d
      | One d \<Rightarrow> Inr d)"

definition recover :: "location_tuple list \<Rightarrow> error \<Rightarrow> error + GoToResponse" where
  \<comment> \<open>the outer \<open>except Exception as e\<close>\<close>
  "recover previous_locations e =
     (if previous_locations \<noteq> [] then Inr (location_of (last previous_locations))
      else Inl (CantJumpToImplementationBecause e))"

definition is_import :: "unicode \<Rightarrow> bool" where
  "is_import line_content =
     startswith (strip line_content) [py_str ''import '', py_str ''from '']"

definition new_request :: "GoToResponse \<Rightarrow> (path \<rightharpoonup> FileData) \<Rightarrow> Request" where
  \<comment> \<open>\<open>new_request_data\<close>: it has no \<open>extra_conf_data\<close>\<close>
  "new_request current_location new_file_data =
     \<lparr> filepath = filepath current_location,
       line_num = line_num current_location,
       column_num = column_num current_location,
       command_arguments = [''GoToDefinition''],
       file_data = new_file_data,
       extra_conf_data = None \<rparr>"

datatype step = Return "error + GoToResponse" | Continue Request "location_tuple list"

definition check_line ::
  "'st World \<Rightarrow> Request \<Rightarrow> location_tuple list \<Rightarrow> GoToResponse \<Rightarrow> (path \<rightharpoonup> FileData) \<Rightarrow> step" where
  \<comment> \<open>from \<open>Make sure line_num is valid for this file\<close> on. A missing \<open>contents\<close> and a
      line number that is \<open>None\<close> raise inside the \<open>try\<close> whose handler returns the current
      location. A request that \<open>RequestWrap\<close> refuses leaves the current request as it was.\<close>
  "check_line w current_request_data previous_locations current_location new_file_data =
     (case new_file_data (filepath current_location) of
        None \<Rightarrow> Return (Inr current_location)
      | Some data \<Rightarrow>
          (case contents data of
             None \<Rightarrow> Return (Inr current_location)
           | Some file_contents \<Rightarrow>
               (let lines = splitlines file_contents in
                case line_num current_location of
                  None \<Rightarrow> Return (Inr current_location)
                | Some n \<Rightarrow>
                    if n \<le> 0 \<or> n > int (length lines) then Return (Inr current_location)
                    else if \<not> is_import (lines ! nat (n - 1)) then Return (Inr current_location)
                    else
                      (let new_request_data = new_request current_location new_file_data
                       in Continue
                            (if RequestWrap_valid w new_request_data then new_request_data
                             else current_request_data)
                            previous_locations))))"

definition visit ::
  "'st World \<Rightarrow> Request \<Rightarrow> Request \<Rightarrow> location_tuple list \<Rightarrow> GoToResponse \<Rightarrow> step" where
  \<comment> \<open>what an iteration does with the location of its query\<close>
  "visit w request_data current_request_data previous_locations current_location =
     (let location_tuple = tuple_of current_location in
      if location_tuple \<in> set previous_locations then Return (Inr current_location)
      else
        (let previous_locations' = previous_locations @ [location_tuple];
             file = filepath current_location
         in if file_data request_data file \<noteq> None
            then check_line w current_request_data previous_locations' current_location
                   (file_data request_data)
            else
              (case ReadFile w file of
                 FileContents file_contents \<Rightarrow>
                   check_line w current_request_data previous_locations' current_location
                     ((file_data request_data)
                        (file \<mapsto> \<lparr> contents = Some file_contents,
                                   filetypes = Some [''python''] \<rparr>))
               | IOError \<Rightarrow> Return (Inr current_location)
               | DecodeError \<Rightarrow> Return (recover previous_locations' EngineError))))"

definition hop ::
  "'st World \<Rightarrow> Request \<Rightarrow> Request \<Rightarrow> location_tuple list \<Rightarrow> 'st \<Rightarrow> step \<times> 'st" where
  \<comment> \<open>one iteration of the loop: one single-hop query, then \<open>visit\<close>\<close>
  "hop w request_data current_request_data previous_locations st =
     (case GoToDefinition w current_request_data st of
        (Inl e, st') \<Rightarrow> (Return (recover previous_locations e), st')
      | (Inr definition_result, st') \<Rightarrow>
          (case first_definition definition_result of
             Inl e \<Rightarrow> (Return (recover previous_locations e), st')
           | Inr current_location \<Rightarrow>
               (visit w request_data current_request_data previous_locations current_location,
                st')))"

definition after_loop :: "location_tuple list \<Rightarrow> error + GoToResponse" where
  \<comment> \<open>after the \<open>while\<close>: the iterations are exhausted\<close>
  "after_loop previous_locations =
     (if previous_locations \<noteq> [] then Inr (location_of (last previous_locations))
      else Inl CantJumpToImplementation)"

function GoToImplementation_loop ::
  "'st World \<Rightarrow> Request \<Rightarrow> Request \<Rightarrow> location_tuple list \<Rightarrow> nat \<Rightarrow> 'st
   \<Rightarrow> (error + GoToResponse) \<times> nat \<times> 'st" where
  "GoToImplementation_loop w request_data current_request_data previous_locations iterations st =
     (if iterations < max_iterations
      then
        (case hop w request_data current_request_data previous_locations st of
           (Return r, st') \<Rightarrow> (r, iterations + 1, st')
         | (Continue current_request_data' previous_locations', st') \<Rightarrow>
             GoToImplementation_loop w request_data current_request_data'
               previous_locations' (iterations + 1) st')
      else (after_loop previous_locations, iterations, st))"
  by pat_completeness auto
termination
  by (relation "measure (\<lambda>(w, request_data, current_request_data, previous_locations,
                           iterations, st). max_iterations - iterations)") auto

declare GoToImplementation_loop.simps [simp del]

definition GoToImplementation ::
  "'st World \<Rightarrow> Request \<Rightarrow> 'st \<Rightarrow> (error + GoToResponse) \<times> nat \<times> 'st" where
  \<comment> \<open>the result, the final value of \<open>iterations\<close> (each iteration issues exactly one
      single-hop query, so this is the number of queries) and the engine's state\<close>
  "GoToImplementation w request_data st =
     GoToImplementation_loop w request_data request_data [] 0 st"

fun hops ::
  "'st World \<Rightarrow> Request \<Rightarrow> nat \<Rightarrow> Request \<Rightarrow> location_tuple list \<Rightarrow> 'st
   \<Rightarrow> (Request \<times> location_tuple list \<times> 'st) option" where
  \<comment> \<open>the state after \<open>n\<close> iterations none of which returned; \<open>None\<close> if one did\<close>
  "hops w request_data 0 current_request_data previous_locations st =
     Some (current_request_data, previous_locations, st)"
| "hops w request_data (Suc n) current_request_data previous_locations st =
     (case hop w request_data current_request_data previous_locations st of
        (Return r, st') \<Rightarrow> None
      | (Continue current_request_data' previous_locations', st') \<Rightarrow>
          hops w request_data n current_request_data' previous_locations' st')"

section \<open>Settings, environment and project of a file\<close>

text \<open>
  The three tables of the completer are keyed by the file path and the client's
  configuration data of the request; the table of environments by interpreter path is
  keyed by the interpreter path itself, which is \<open>None\<close>, empty, or the normalised path of
  an executable.
\<close>

type_synonym FileKey = "path \<times> client_data option"

record Settings =
  setting_interpreter_path :: "path option"
  setting_sys_path :: "path list option"
  setting_project_directory :: "path option"

record Module =
  Settings_hook :: "(path \<Rightarrow> client_data option \<Rightarrow> Settings option) option"
  PythonSysPath_hook :: "(Settings \<Rightarrow> path list) option"

record Project =
  project_path :: path
  project_sys_path :: "path list"
  environment_path :: path

record Definition =
  name_column :: "int option"
  name_line :: "int option"
  module_path :: "path option"
  name_description :: string

text \<open>
  What the completer calls and does not define. An environment is an object of Jedi, of
  some type \<open>'env\<close>; \<open>jedi.create_environment\<close> and \<open>jedi.get_default_environment\<close> may
  answer each call with another object, so they take the number of environments built so
  far, and equality in \<open>'env\<close> is identity of the object. The configuration hook
  (\<open>extra_conf_store.ModuleForSourceFile\<close> and the module's functions) and the look-up of
  executables are functions of their arguments: the configuration and the file system
  stay as they are.
\<close>

record 'env Ext =
  ModuleForSourceFile :: "path \<Rightarrow> Module option"
  python_binary_path :: path
  max_num_candidates :: int
  FindExecutable :: "path \<Rightarrow> path option"
  ExpandVariablesInPath :: "path \<Rightarrow> path"
  normpath :: "path \<Rightarrow> path"
  dirname :: "path \<Rightarrow> path"
  get_default_environment :: "nat \<Rightarrow> 'env"
  create_environment :: "path \<Rightarrow> nat \<Rightarrow> 'env option"
  executable :: "'env \<Rightarrow> path"
  get_sys_path :: "'env \<Rightarrow> path list"
  get_default_project :: "path \<Rightarrow> path"
  complete_search :: "Project \<Rightarrow> string \<Rightarrow> Definition list"

text \<open>
  The state of the completer: its four tables, and four counters that the source does
  not have. The counters record how often the configuration hook, the look-up of an
  executable, the construction of an environment and the construction of a project were
  invoked.
\<close>

record 'env Completer =
  settings_for_file :: "FileKey \<rightharpoonup> Settings"
  environment_for_file :: "FileKey \<rightharpoonup> 'env"
  environment_for_interpreter_path :: "path option \<rightharpoonup> 'env"
  jedi_project_for_file :: "FileKey \<rightharpoonup> Project"
  hook_calls :: nat
  path_lookups :: nat
  environments_built :: nat
  projects_built :: nat

definition init :: "'env Completer" where
  \<comment> \<open>\<open>__init__\<close>: the tables are empty\<close>
  "init = \<lparr> settings_for_file = Map.empty, environment_for_file = Map.empty,
            environment_for_interpreter_path = Map.empty, jedi_project_for_file = Map.empty,
            hook_calls = 0, path_lookups = 0, environments_built = 0, projects_built = 0 \<rparr>"

definition key_of :: "Request \<Rightarrow> FileKey" where
  "key_of request_data = (filepath request_data, extra_conf_data request_data)"

definition truthy :: "path option \<Rightarrow> bool" where
  \<comment> \<open>Python's truth value of a string or \<open>None\<close>\<close>
  "truthy p = (case p of None \<Rightarrow> False | Some q \<Rightarrow> q \<noteq> [])"

definition GetSettings :: "'env Ext \<Rightarrow> Module option \<Rightarrow> path \<Rightarrow> client_data option \<Rightarrow> Settings" where
  "GetSettings ext module file client =
     (let default = \<lparr> setting_interpreter_path = Some (python_binary_path ext),
                       setting_sys_path = None, setting_project_directory = None \<rparr>
      in case module of
           None \<Rightarrow> default
         | Some m \<Rightarrow>
             (case Settings_hook m of
                None \<Rightarrow> default
              | Some f \<Rightarrow> (case f file client of None \<Rightarrow> default | Some settings \<Rightarrow> settings)))"

definition SettingsForRequest ::
  "'env Ext \<Rightarrow> Request \<Rightarrow> 'env Completer \<Rightarrow> Settings \<times> 'env Completer" where
  "SettingsForRequest ext request_data s =
     (case settings_for_file s (key_of request_data) of
        Some settings \<Rightarrow> (settings, s)
      | None \<Rightarrow>
          (let module = ModuleForSourceFile ext (filepath request_data);
               settings = GetSettings ext module (filepath request_data)
                            (extra_conf_data request_data)
           in (settings,
               s\<lparr> settings_for_file := (settings_for_file s)(key_of request_data \<mapsto> settings),
                  hook_calls := hook_calls s + 1 \<rparr>)))"

definition resolve_interpreter_path :: "'env Ext \<Rightarrow> path option \<Rightarrow> error + path option" where
  \<comment> \<open>the first \<open>if\<close> of \<open>_EnvironmentForInterpreterPath\<close>: the key of the table, or the
      error\<close>
  "resolve_interpreter_path ext interpreter_path =
     (case interpreter_path of
        None \<Rightarrow> Inr None
      | Some p \<Rightarrow>
          if p = [] then Inr (Some p)
          else
            (let resolved_interpreter_path = FindExecutable ext (ExpandVariablesInPath ext p)
             in case resolved_interpreter_path of
                  None \<Rightarrow> Inl (CannotFindInterpreter p)
                | Some r \<Rightarrow>
                    if r = [] then Inl (CannotFindInterpreter p)
                    else Inr (Some (normpath ext r))))"

definition EnvironmentForInterpreterPath ::
  "'env Ext \<Rightarrow> path option \<Rightarrow> 'env Completer \<Rightarrow> (error + 'env) \<times> 'env Completer" where
  "EnvironmentForInterpreterPath ext interpreter_path s =
     (let s0 = (if truthy interpreter_path then s\<lparr> path_lookups := path_lookups s + 1 \<rparr> else s)
      in case resolve_interpreter_path ext interpreter_path of
           Inl e \<Rightarrow> (Inl e, s0)
         | Inr interpreter_path' \<Rightarrow>
             (case environment_for_interpreter_path s0 interpreter_path' of
                Some environment \<Rightarrow> (Inr environment, s0)
              | None \<Rightarrow>
                  (let s1 = s0\<lparr> environments_built := environments_built s0 + 1 \<rparr>
                   in case (case interpreter_path' of
                              None \<Rightarrow> Some (get_default_environment ext (environments_built s0))
                            | Some p \<Rightarrow>
                                if p = []
                                then Some (get_default_environment ext (environments_built s0))
                                else create_environment ext p (environments_built s0)) of
                        None \<Rightarrow> (Inl EngineError, s1)
                      | Some environment \<Rightarrow>
                          (Inr environment,
                           s1\<lparr> environment_for_interpreter_path :=
                                  (environment_for_interpreter_path s1)
                                    (interpreter_path' \<mapsto> environment) \<rparr>))))"

definition EnvironmentForRequest ::
  "'env Ext \<Rightarrow> Request \<Rightarrow> 'env Completer \<Rightarrow> (error + 'env) \<times> 'env Completer" where
  "EnvironmentForRequest ext request_data s =
     (case environment_for_file s (key_of request_data) of
        Some environment \<Rightarrow> (Inr environment, s)
      | None \<Rightarrow>
          (case SettingsForRequest ext request_data s of
             (settings, s1) \<Rightarrow>
               (case EnvironmentForInterpreterPath ext (setting_interpreter_path settings) s1 of
                  (Inl e, s2) \<Rightarrow> (Inl e, s2)
                | (Inr environment, s2) \<Rightarrow>
                    (Inr environment,
                     s2\<lparr> environment_for_file :=
                            (environment_for_file s2)(key_of request_data \<mapsto> environment) \<rparr>))))"

definition GetJediProject ::
  "'env Ext \<Rightarrow> Request \<Rightarrow> 'env \<Rightarrow> 'env Completer \<Rightarrow> Project \<times> 'env Completer" where
  \<comment> \<open>\<open>settings.update\<close> copies the entries of the stored settings, not their values: when
      the stored settings have a \<open>sys_path\<close>, \<open>settings[ 'sys_path' ].extend( ... )\<close> extends
      the list that the table holds.\<close>
  "GetJediProject ext request_data environment s =
     (case SettingsForRequest ext request_data s of
        (stored, s1) \<Rightarrow>
          (let paths = (case setting_sys_path stored of None \<Rightarrow> [] | Some l \<Rightarrow> l)
                         @ get_sys_path ext environment;
               s2 = (case setting_sys_path stored of
                       None \<Rightarrow> s1
                     | Some l \<Rightarrow>
                         s1\<lparr> settings_for_file :=
                               (settings_for_file s1)
                                 (key_of request_data \<mapsto>
                                    stored\<lparr> setting_sys_path := Some paths \<rparr>) \<rparr>);
               settings = stored\<lparr> setting_interpreter_path := Some (executable ext environment),
                                  setting_sys_path := Some paths \<rparr>;
               module = ModuleForSourceFile ext (filepath request_data);
               paths' = (case module of
                           None \<Rightarrow> paths
                         | Some m \<Rightarrow>
                             (case PythonSysPath_hook m of
                                None \<Rightarrow> paths
                              | Some f \<Rightarrow> f settings));
               directory = (case setting_project_directory settings of
                              None \<Rightarrow> get_default_project ext (dirname ext (filepath request_data))
                            | Some d \<Rightarrow>
                                if d = []
                                then get_default_project ext (dirname ext (filepath request_data))
                                else d)
           in (\<lparr> project_path = directory, project_sys_path = paths',
                 environment_path = executable ext environment \<rparr>,
               s2\<lparr> hook_calls := hook_calls s2 + 1,
                   projects_built := projects_built s2 + 1 \<rparr>)))"

definition JediProjectForFile ::
  "'env Ext \<Rightarrow> Request \<Rightarrow> 'env \<Rightarrow> 'env Completer \<Rightarrow> Project \<times> 'env Completer" where
  "JediProjectForFile ext request_data environment s =
     (case jedi_project_for_file s (key_of request_data) of
        Some jedi_project \<Rightarrow> (jedi_project, s)
      | None \<Rightarrow>
          (case GetJediProject ext request_data environment s of
             (jedi_project, s1) \<Rightarrow>
               (jedi_project,
                s1\<lparr> jedi_project_for_file :=
                       (jedi_project_for_file s1)(key_of request_data \<mapsto> jedi_project) \<rparr>)))"

definition OnFileReadyToParse ::
  "'env Ext \<Rightarrow> Request \<Rightarrow> 'env Completer \<Rightarrow> (error + 'env \<times> Project) \<times> 'env Completer" where
  \<comment> \<open>the chain as every request runs it: the environment, then the project built from
      it. The source returns nothing here; the model returns what the chain resolved.\<close>
  "OnFileReadyToParse ext request_data s =
     (case EnvironmentForRequest ext request_data s of
        (Inl e, s1) \<Rightarrow> (Inl e, s1)
      | (Inr environment, s1) \<Rightarrow>
          (case JediProjectForFile ext request_data environment s1 of
             (jedi_project, s2) \<Rightarrow> (Inr (environment, jedi_project), s2)))"

section \<open>Go-to responses and the symbol search\<close>

definition responses_BuildGoToResponse ::
  "path \<Rightarrow> int option \<Rightarrow> int \<Rightarrow> string \<Rightarrow> GoToResponse" where
  \<comment> \<open>Modelled from the spec: \<open>responses.BuildGoToResponse\<close> is not among the sources. The
      spec has every result record carry a path, a line, a column and a description.\<close>
  "responses_BuildGoToResponse file line column text =
     \<lparr> filepath = file, line_num = line, column_num = column,
       description = (if text = [] then None else Some text) \<rparr>"

definition goto_response_of :: "Definition \<Rightarrow> Request \<Rightarrow> GoToResponse option" where
  \<comment> \<open>what \<open>_BuildGoToResponse\<close> does with one definition, in both of its branches:
      nothing when column, line and module path are all \<open>None\<close>\<close>
  "goto_response_of definition request_data =
     (if name_column definition = None \<and> name_line definition = None
         \<and> module_path definition = None
      then None
      else
        (let column = 1 + (case name_column definition of None \<Rightarrow> 0 | Some c \<Rightarrow> c);
             file = (if truthy (module_path definition)
                     then (case module_path definition of Some p \<Rightarrow> p
                           | None \<Rightarrow> filepath request_data)
                     else filepath request_data)
         in Some (responses_BuildGoToResponse file (name_line definition) column
                    (name_description definition))))"

definition BuildGoToResponse :: "Definition list \<Rightarrow> Request \<Rightarrow> definition_result option" where
  "BuildGoToResponse definitions request_data =
     (case definitions of
        [definition] \<Rightarrow> map_option One (goto_response_of definition request_data)
      | _ \<Rightarrow> Some (Many (List.map_filter (\<lambda>d. goto_response_of d request_data) definitions)))"

definition GoToSymbol ::
  "'env Ext \<Rightarrow> Request \<Rightarrow> string list \<Rightarrow> 'env Completer
   \<Rightarrow> (error + definition_result) \<times> 'env Completer" where
  "GoToSymbol ext request_data args s =
     (case args of
        [] \<Rightarrow> (Inl MustSpecifySearch, s)
      | query # _ \<Rightarrow>
          (let MAX_RESULTS = (if max_num_candidates ext < 0 then 100
                              else max_num_candidates ext)
           in case EnvironmentForRequest ext request_data s of
                (Inl e, s1) \<Rightarrow> (Inl e, s1)
              | (Inr environent, s1) \<Rightarrow>
                  (case JediProjectForFile ext request_data environent s1 of
                     (project, s2) \<Rightarrow>
                       (let definitions = take (nat MAX_RESULTS)
                                            (complete_search ext project query)
                        in if definitions \<noteq> []
                           then (case BuildGoToResponse definitions request_data of
                                   Some r \<Rightarrow> (Inr r, s2)
                                 | None \<Rightarrow> (Inl SymbolNotFound, s2))
                           else (Inl SymbolNotFound, s2)))))"

definition num_results :: "definition_result \<Rightarrow> nat" where
  \<comment> \<open>the number of locations in a result\<close>
  "num_results r = (case r of One _ \<Rightarrow> 1 | Many ds \<Rightarrow> length ds)"

section \<open>Notions used to state the results\<close>

definition source_text :: "'st World \<Rightarrow> Request \<Rightarrow> path \<Rightarrow> unicode option" where
  \<comment> \<open>the text of a file as the walk obtains it: from the file data of the request when
      the file is held there, from disk otherwise\<close>
  "source_text w request_data file =
     (case file_data request_data file of
        Some data \<Rightarrow> contents data
      | None \<Rightarrow> (case ReadFile w file of FileContents c \<Rightarrow> Some c | _ \<Rightarrow> None))"

definition file_data_at :: "'st World \<Rightarrow> Request \<Rightarrow> path \<Rightarrow> (path \<rightharpoonup> FileData)" where
  \<comment> \<open>the file data of the next request: those of the original request, and the file read
      from disk when they do not hold it\<close>
  "file_data_at w request_data file =
     (if file_data request_data file \<noteq> None then file_data request_data
      else (case ReadFile w file of
              FileContents c \<Rightarrow>
                (file_data request_data)
                  (file \<mapsto> \<lparr> contents = Some c, filetypes = Some [''python''] \<rparr>)
            | _ \<Rightarrow> file_data request_data))"

definition next_request :: "'st World \<Rightarrow> Request \<Rightarrow> Request \<Rightarrow> GoToResponse \<Rightarrow> Request" where
  \<comment> \<open>the request of the next single-hop query: positioned at the location, unless
      \<open>RequestWrap\<close> refuses it\<close>
  "next_request w request_data current_request_data current_location =
     (let new_request_data =
            new_request current_location
              (file_data_at w request_data (filepath current_location))
      in if RequestWrap_valid w new_request_data then new_request_data
         else current_request_data)"

definition counting :: "'st World \<Rightarrow> ('st \<times> nat) World" where
  \<comment> \<open>the same world, its single-hop query instrumented to count its calls\<close>
  "counting w =
     \<lparr> GoToDefinition =
         (\<lambda>q (s, k). case GoToDefinition w q s of (res, s') \<Rightarrow> (res, (s', k + 1))),
       ReadFile = ReadFile w, RequestWrap_valid = RequestWrap_valid w \<rparr>"

definition queries :: "'st World \<Rightarrow> Request \<Rightarrow> 'st \<Rightarrow> nat" where
  \<comment> \<open>the number of single-hop queries that a walk issues\<close>
  "queries w request_data st =
     snd (snd (snd (GoToImplementation (counting w) request_data (st, 0))))"

definition configured_interpreter :: "'env Ext \<Rightarrow> FileKey \<Rightarrow> path option" where
  \<comment> \<open>the interpreter path that the configuration gives for a file key\<close>
  "configured_interpreter ext k =
     setting_interpreter_path (GetSettings ext (ModuleForSourceFile ext (fst k)) (fst k) (snd k))"

definition consistent :: "'env Ext \<Rightarrow> 'env Completer \<Rightarrow> bool" where
  \<comment> \<open>what holds of the tables in every state that the completer reaches: stored settings
      carry the configured interpreter path, and the environment stored for a file key is
      the one stored under the key that its interpreter path resolves to\<close>
  "consistent ext s \<longleftrightarrow>
     (\<forall>k st. settings_for_file s k = Some st \<longrightarrow>
        setting_interpreter_path st = configured_interpreter ext k)
     \<and> (\<forall>k e. environment_for_file s k = Some e \<longrightarrow>
          (\<exists>key. resolve_interpreter_path ext (configured_interpreter ext k) = Inr key
             \<and> environment_for_interpreter_path s key = Some e))"


section \<open>Concrete inputs\<close>

definition request_at :: "path \<Rightarrow> int \<Rightarrow> int \<Rightarrow> Request" where
  \<comment> \<open>a client's request that holds no file\<close>
  "request_at file line column =
     \<lparr> filepath = file, line_num = Some line, column_num = column,
       command_arguments = [''GoToImplementation''], file_data = Map.empty,
       extra_conf_data = Some [] \<rparr>"

definition location_at :: "path \<Rightarrow> int \<Rightarrow> int \<Rightarrow> GoToResponse" where
  "location_at file line column =
     \<lparr> filepath = file, line_num = Some line, column_num = column, description = None \<rparr>"

definition chain_text :: unicode where
  \<comment> \<open>ten import lines\<close>
  "chain_text = concat (replicate 10 (py_str ''from m'' @ [LF]))"

definition disk :: "path \<Rightarrow> read_result" where
  \<comment> \<open>a file system: \<open>api.py\<close> is one import line, \<open>bare.py\<close> is the line \<open>import\<close>
      followed by a space, \<open>chain.py\<close> is ten import lines\<close>
  "disk file =
     (if file = ''api.py'' then FileContents (py_str ''from impl import f'')
      else if file = ''bare.py'' then FileContents (py_str ''import '')
      else if file = ''chain.py''
      then FileContents chain_text
      else IOError)"

definition fixed_world :: "nat World" where
  \<comment> \<open>every query answers line 1 of \<open>api.py\<close>; the state counts the queries\<close>
  "fixed_world =
     \<lparr> GoToDefinition = (\<lambda>q n. (Inr (One (location_at ''api.py'' 1 6)), n + 1)),
       ReadFile = disk, RequestWrap_valid = (\<lambda>q. True) \<rparr>"






section \<open>Results: offsets to positions\<close>


section \<open>Results: the transitive walk\<close>

subsection \<open>The loop, iteration by iteration\<close>


lemma loop_step:
  "iterations < max_iterations \<Longrightarrow> hop w rd cur prev st = (Continue cur' prev', st')
   \<Longrightarrow> GoToImplementation_loop w rd cur prev iterations st
       = GoToImplementation_loop w rd cur' prev' (iterations + 1) st'"
  by (subst GoToImplementation_loop.simps) simp

lemma loop_return:
  "iterations < max_iterations \<Longrightarrow> hop w rd cur prev st = (Return r, st')
   \<Longrightarrow> GoToImplementation_loop w rd cur prev iterations st = (r, iterations + 1, st')"
  by (subst GoToImplementation_loop.simps) simp

lemma loop_exhausted:
  "\<not> iterations < max_iterations
   \<Longrightarrow> GoToImplementation_loop w rd cur prev iterations st = (after_loop prev, iterations, st)"
  by (subst GoToImplementation_loop.simps) simp

lemma loop_hops:
  "hops w rd n cur prev st = Some (cur', prev', st') \<Longrightarrow> iterations + n \<le> max_iterations
   \<Longrightarrow> GoToImplementation_loop w rd cur prev iterations st
       = GoToImplementation_loop w rd cur' prev' (iterations + n) st'"
proof (induction n arbitrary: cur prev st iterations)
  case 0
  then show ?case by simp
next
  case (Suc n)
  from Suc.prems(1) obtain c1 p1 s1 where
    h: "hop w rd cur prev st = (Continue c1 p1, s1)" and
    r: "hops w rd n c1 p1 s1 = Some (cur', prev', st')"
    by (auto split: prod.splits step.splits)
  have "iterations < max_iterations" using Suc.prems(2) by simp
  then have "GoToImplementation_loop w rd cur prev iterations st
      = GoToImplementation_loop w rd c1 p1 (iterations + 1) s1"
    using h by (rule loop_step)
  also have "\<dots> = GoToImplementation_loop w rd cur' prev' (iterations + 1 + n) st'"
    using r Suc.prems(2) by (intro Suc.IH) simp_all
  finally show ?case by simp
qed




lemma visit_cases:
  assumes "tuple_of L \<notin> set prev" "source_text w rd (filepath L) = Some c"
  shows "visit w rd cur prev L =
     (case line_num L of
        None \<Rightarrow> Return (Inr L)
      | Some n \<Rightarrow>
          if n \<le> 0 \<or> n > int (length (splitlines c)) then Return (Inr L)
          else if is_import (splitlines c ! nat (n - 1))
          then Continue (next_request w rd cur L) (prev @ [tuple_of L])
          else Return (Inr L))"
  using assms
  by (auto simp: visit_def check_line_def source_text_def next_request_def file_data_at_def Let_def
      split: option.splits read_result.splits)

lemma hop_query:
  assumes "GoToDefinition w cur st = (Inr r, st')" "first_definition r = Inr L"
  shows "hop w rd cur prev st = (visit w rd cur prev L, st')"
  using assms by (simp add: hop_def)


subsection \<open>The iterations count the queries\<close>

lemma RequestWrap_valid_counting: "RequestWrap_valid (counting w) = RequestWrap_valid w"
  by (simp add: counting_def)

lemma check_line_counting: "check_line (counting w) = check_line w"
  by (intro ext) (unfold check_line_def RequestWrap_valid_counting, rule refl)

lemma ReadFile_counting: "ReadFile (counting w) = ReadFile w"
  by (simp add: counting_def)

lemma visit_counting: "visit (counting w) rd cur prev L = visit w rd cur prev L"
  unfolding visit_def check_line_counting ReadFile_counting by (rule refl)

lemma GoToDefinition_counting:
  "GoToDefinition (counting w) q (s, k)
   = (case GoToDefinition w q s of (res, s') \<Rightarrow> (res, (s', k + 1)))"
  by (simp add: counting_def)

lemma hop_counting:
  "hop (counting w) rd cur prev (s, k)
   = (case hop w rd cur prev s of (stp, s') \<Rightarrow> (stp, (s', k + 1)))"
  by (auto simp: hop_def GoToDefinition_counting visit_counting split: prod.splits sum.splits)

lemma loop_lower:
  "iterations \<le> fst (snd (GoToImplementation_loop w rd cur prev iterations st))"
proof (induction j \<equiv> "max_iterations - iterations" arbitrary: cur prev iterations st)
  case 0
  then show ?case by (simp add: loop_exhausted)
next
  case (Suc j)
  then have lt: "iterations < max_iterations" by simp
  obtain stp s1 where h: "hop w rd cur prev st = (stp, s1)" by (cases "hop w rd cur prev st")
  show ?case
  proof (cases stp)
    case (Return r)
    then show ?thesis using lt h by (simp add: loop_return)
  next
    case (Continue c1 p1)
    have "iterations + 1 \<le> fst (snd (GoToImplementation_loop w rd c1 p1 (iterations + 1) s1))"
      using Suc.hyps(2) lt by (intro Suc.hyps(1)) simp_all
    then show ?thesis using lt h Continue by (simp add: loop_step)
  qed
qed

lemma loop_counting:
  "iterations \<le> max_iterations \<Longrightarrow>
   GoToImplementation_loop (counting w) rd cur prev iterations (s, k)
   = (case GoToImplementation_loop w rd cur prev iterations s of
        (res, its, s') \<Rightarrow> (res, its, (s', k + (its - iterations))))"
proof (induction j \<equiv> "max_iterations - iterations" arbitrary: cur prev iterations s k)
  case 0
  then show ?case by (simp add: loop_exhausted)
next
  case (Suc j)
  then have lt: "iterations < max_iterations" by simp
  obtain stp s1 where h: "hop w rd cur prev s = (stp, s1)" by (cases "hop w rd cur prev s")
  then have hc: "hop (counting w) rd cur prev (s, k) = (stp, (s1, k + 1))"
    by (simp add: hop_counting)
  show ?case
  proof (cases stp)
    case (Return r)
    then show ?thesis using lt h hc by (simp add: loop_return)
  next
    case (Continue c1 p1)
    have b: "iterations + 1 \<le> fst (snd (GoToImplementation_loop w rd c1 p1 (iterations + 1) s1))"
      by (rule loop_lower)
    have "GoToImplementation_loop (counting w) rd c1 p1 (iterations + 1) (s1, k + 1)
      = (case GoToImplementation_loop w rd c1 p1 (iterations + 1) s1 of
        (res, its, s') \<Rightarrow> (res, its, (s', k + 1 + (its - (iterations + 1)))))"
      using Suc.hyps(2) lt by (intro Suc.hyps(1)) simp_all
    then show ?thesis using lt h hc Continue b by (simp add: loop_step split: prod.splits)
  qed
qed

lemma queries_eq_iterations:
  "queries w request_data st = fst (snd (GoToImplementation w request_data st))"
  by (simp add: queries_def GoToImplementation_def loop_counting split: prod.splits)

subsection \<open>The walks of the concrete inputs\<close>

lemma ev_api_lines: "splitlines (py_str ''from impl import f'') = [py_str ''from impl import f'']"
  by (simp add: splitlines_def py_str_def is_linebreak_def CR_def LF_def)

lemma ev_api_import: "is_import (py_str ''from impl import f'')"
  by (simp add: is_import_def strip_def startswith_def py_str_def isspace_def)












subsection \<open>The claims about the walk\<close>



text \<open>
  C2. When the location of a single-hop query is already among the visited ones, the
  walk returns that location at once. In particular, when every query answers the same
  location \<open>A\<close> and the source line of \<open>A\<close> is an import, the walk returns \<open>A\<close> after
  exactly two queries.
\<close>

theorem revisit_stops:
  "(hops w request_data n request_data [] st = Some (cur, prev, st1) \<and> n < max_iterations
      \<and> GoToDefinition w cur st1 = (Inr r, st2) \<and> first_definition r = Inr L
      \<and> tuple_of L \<in> set prev
    \<longrightarrow> GoToImplementation w request_data st = (Inr L, n + 1, st2))
   \<and> ((\<forall>q s. \<exists>r. fst (GoToDefinition w q s) = Inr r \<and> first_definition r = Inr A)
        \<and> source_text w request_data (filepath A) = Some c
        \<and> line_num A = Some l \<and> 0 < l \<and> l \<le> int (length (splitlines c))
        \<and> is_import (splitlines c ! nat (l - 1))
    \<longrightarrow> fst (GoToImplementation w request_data st) = Inr A
        \<and> queries w request_data st = 2)"
proof (intro conjI impI)
  assume a: "hops w request_data n request_data [] st = Some (cur, prev, st1) \<and> n < max_iterations
      \<and> GoToDefinition w cur st1 = (Inr r, st2) \<and> first_definition r = Inr L
      \<and> tuple_of L \<in> set prev"
  have "GoToImplementation w request_data st
      = GoToImplementation_loop w request_data cur prev (0 + n) st1"
    unfolding GoToImplementation_def using a by (intro loop_hops) simp_all
  also have "\<dots> = (Inr L, n + 1, st2)"
    using a by (simp add: loop_return hop_query visit_def)
  finally show "GoToImplementation w request_data st = (Inr L, n + 1, st2)" .
next
  assume a: "(\<forall>q s. \<exists>r. fst (GoToDefinition w q s) = Inr r \<and> first_definition r = Inr A)
        \<and> source_text w request_data (filepath A) = Some c
        \<and> line_num A = Some l \<and> 0 < l \<and> l \<le> int (length (splitlines c))
        \<and> is_import (splitlines c ! nat (l - 1))"
  have q: "\<exists>r s'. GoToDefinition w q s = (Inr r, s') \<and> first_definition r = Inr A" for q s
    using a by (metis prod.collapse)
  obtain r1 s1 where 1: "GoToDefinition w request_data st = (Inr r1, s1)"
      "first_definition r1 = Inr A" using q by blast
  let ?c1 = "next_request w request_data request_data A"
  have h1: "hop w request_data request_data [] st = (Continue ?c1 [tuple_of A], s1)"
    using a by (simp add: hop_query[OF 1] visit_cases[where c = c])
  obtain r2 s2 where 2: "GoToDefinition w ?c1 s1 = (Inr r2, s2)"
      "first_definition r2 = Inr A" using q by blast
  have h2: "hop w request_data ?c1 [tuple_of A] s1 = (Return (Inr A), s2)"
    by (simp add: hop_query[OF 2] visit_def)
  have "GoToImplementation w request_data st = (Inr A, 2, s2)"
    unfolding GoToImplementation_def
    by (simp add: loop_step[OF _ h1] loop_return[OF _ h2] max_iterations_def)
  then show "fst (GoToImplementation w request_data st) = Inr A"
    and "queries w request_data st = 2" by (simp_all add: queries_eq_iterations)
qed

theorem revisit_stops_witness:
  "GoToImplementation fixed_world (request_at ''main.py'' 3 5) 0
     = (Inr (location_at ''api.py'' 1 6), 2, 2)
   \<and> queries fixed_world (request_at ''main.py'' 3 5) 0 = 2"
proof -
  let ?rq = "request_at ''main.py'' 3 5"
  let ?A = "location_at ''api.py'' 1 6"
  let ?cur = "new_request ?A
      [''api.py'' \<mapsto> \<lparr> contents = Some (py_str ''from impl import f''),
                         filetypes = Some [''python''] \<rparr>]"
  have a: "hops fixed_world ?rq 1 ?rq [] 0 = Some (?cur, [(''api.py'', Some 1, 6)], 1)"
    by (simp add: hop_def fixed_world_def first_definition_def visit_def tuple_of_def
        location_at_def request_at_def disk_def check_line_def ev_api_lines ev_api_import Let_def)
  have b: "(1::nat) < max_iterations" by (simp add: max_iterations_def)
  have c: "GoToDefinition fixed_world ?cur 1 = (Inr (One ?A), 2)"
    by (simp add: fixed_world_def)
  have d: "first_definition (One ?A) = Inr ?A" by (simp add: first_definition_def)
  have e: "tuple_of ?A \<in> set [(''api.py'', Some 1, 6)]"
    by (simp add: tuple_of_def location_at_def)
  have 1: "GoToImplementation fixed_world ?rq 0 = (Inr ?A, 2, 2)"
    using revisit_stops[THEN conjunct1, rule_format, OF conjI[OF a conjI[OF b conjI[OF c conjI[OF d e]]]]]
    by simp
  have f: "\<forall>q s. \<exists>r. fst (GoToDefinition fixed_world q s) = Inr r \<and> first_definition r = Inr ?A"
    by (simp add: fixed_world_def first_definition_def)
  have g: "source_text fixed_world ?rq (filepath ?A) = Some (py_str ''from impl import f'')"
    by (simp add: source_text_def fixed_world_def request_at_def location_at_def disk_def)
  have h: "line_num ?A = Some 1" "(0::int) < 1"
    "1 \<le> int (length (splitlines (py_str ''from impl import f'')))"
    "is_import (splitlines (py_str ''from impl import f'') ! nat (1 - 1))"
    by (simp_all add: location_at_def ev_api_lines ev_api_import)
  have 2: "queries fixed_world ?rq 0 = 2"
    using revisit_stops[THEN conjunct2, rule_format,
        OF conjI[OF f conjI[OF g conjI[OF h(1) conjI[OF h(2) conjI[OF h(3) h(4)]]]]]]
    by simp
  from 1 2 show ?thesis by simp
qed






end
